theory Spec2Isabelle
  imports Complex_Main "HOL-Library.Sublist"
begin

section \<open>Python strings\<close>

text \<open>
  A Python \<open>str\<close> is modelled as a \<open>string\<close>, one \<open>char\<close> per code point (so the model
  covers texts whose code points are below 256), and \<open>len\<close> is \<open>length\<close>.
\<close>

text \<open>\<open>str.isspace\<close> on one character, for the code points below 256.\<close>

definition py_isspace :: "char \<Rightarrow> bool" where
  "py_isspace c = (let n = (of_char c :: nat) in (9 \<le> n \<and> n \<le> 13) \<or> (28 \<le> n \<and> n \<le> 32) \<or> n = 133 \<or> n = 160)"

text \<open>\<open>s.strip()\<close>: leading and trailing whitespace removed.\<close>

definition py_strip :: "string \<Rightarrow> string" where
  "py_strip s = rev (dropWhile py_isspace (rev (dropWhile py_isspace s)))"

text \<open>\<open>sep.join(xs)\<close>.\<close>

fun py_join :: "string \<Rightarrow> string list \<Rightarrow> string" where
  "py_join sep [] = []"
| "py_join sep [x] = x"
| "py_join sep (x # y # ys) = x @ sep @ py_join sep (y # ys)"

text \<open>
  \<open>s.split(sep)\<close> for a non-empty separator: the text is scanned from the left, every
  occurrence of the separator found closes the current segment and the scan goes on
  behind it, so occurrences do not overlap. (Python raises ValueError for an empty
  separator; the scraper only splits on the two-character literal \<open>". "\<close>.)
\<close>

function py_split :: "string \<Rightarrow> string \<Rightarrow> string list" where
  "py_split sep [] = [[]]"
| "py_split sep (c # cs) =
     (if sep \<noteq> [] \<and> prefix sep (c # cs)
      then [] # py_split sep (drop (length sep) (c # cs))
      else (case py_split sep cs of
              [] \<Rightarrow> [[c]]
            | x # xs \<Rightarrow> (c # x) # xs))"
  by pat_completeness auto
termination
  by (relation "measure (\<lambda>(sep, s). length s)") (auto simp: neq_Nil_conv)

text \<open>\<open>s.split()\<close>: the maximal runs of non-whitespace characters; \<open>cur\<close> is the run being
  read, reversed.\<close>

fun split_ws_from :: "string \<Rightarrow> string \<Rightarrow> string list" where
  "split_ws_from cur [] = (if cur = [] then [] else [rev cur])"
| "split_ws_from cur (c # cs) =
     (if py_isspace c
      then (if cur = [] then split_ws_from [] cs else rev cur # split_ws_from [] cs)
      else split_ws_from (c # cur) cs)"

definition py_split_ws :: "string \<Rightarrow> string list" where
  "py_split_ws s = split_ws_from [] s"

section \<open>The summarizer\<close>

text \<open>
  \<^verbatim>\<open>
  def summarize_text(self, text):
      sentences = text.split(". ")
      return ". ".join(sentences[:3]) + "..." if len(sentences) > 3 else text
  \<close>
\<close>

definition summarize_text :: "string \<Rightarrow> string" where
  "summarize_text text =
     (let sentences = py_split ''. '' text
      in if length sentences > 3 then py_join ''. '' (take 3 sentences) @ ''...'' else text)"

section \<open>Errors and values\<close>

text \<open>
  The exceptions the scraper can meet, all of them subclasses of Python's \<open>Exception\<close>:
  \<open>KeyError\<close> from a missing dictionary key or tag attribute, \<open>ValueError\<close> from the URL
  functions of the standard library, \<open>RequestException\<close> for everything the HTTP library
  raises as such (connection errors, timeouts, and the \<open>HTTPError\<close> of
  \<open>raise_for_status\<close>), \<open>UrllibHTTPError\<close> for the \<open>urllib.error.HTTPError\<close> that
  \<open>urlopen\<close> raises for an error status, with the status code, and \<open>OtherException\<close> for
  any other exception a collaborator raises.
\<close>

datatype pyerr =
    KeyError string
  | ValueError string
  | RequestException string
  | UrllibHTTPError nat
  | OtherException string

fun is_RequestException :: "pyerr \<Rightarrow> bool" where
  "is_RequestException (RequestException m) = True"
| "is_RequestException e = False"

fun http_error_code :: "pyerr \<Rightarrow> nat option" where
  "http_error_code (UrllibHTTPError code) = Some code"
| "http_error_code e = None"

text \<open>
  The values stored in a result dictionary: a string, \<open>None\<close>, a list of strings, and
  \<open>PListOfSet S\<close> for \<open>list(set(xs))\<close>: a list holding every element of \<open>S\<close> once, in the
  iteration order of the Python set, which the language leaves open.
\<close>

datatype pyval =
    PStr string
  | PNone
  | PList "string list"
  | PListOfSet "string set"

type_synonym fetch_result = "string \<rightharpoonup> pyval"

section \<open>The document tree\<close>

text \<open>
  The tree the markup parser hands to the extractor: a tag with its name, its attribute
  dictionary (an association list read with \<open>map_of\<close>) and its children; a text node; and
  \<open>Comment\<close> for the string nodes that \<open>get_text\<close> leaves out (comments, doctype,
  declarations, processing instructions). The document itself is a tag named
  \<open>[document]\<close>.
\<close>

datatype node =
    Tag string "(string \<times> string) list" "node list"
  | NavigableString string
  | Comment string

text \<open>\<open>tag.descendants\<close>: every node below the tag, in document order.\<close>

fun descendants :: "node \<Rightarrow> node list" where
  "descendants (Tag n a cs) = concat (map (\<lambda>c. c # descendants c) cs)"
| "descendants (NavigableString s) = []"
| "descendants (Comment s) = []"

text \<open>\<open>find_all\<close> keeps the descendants that match, \<open>find\<close> returns the first of them
  or \<open>None\<close>.\<close>

definition find_all :: "(node \<Rightarrow> bool) \<Rightarrow> node \<Rightarrow> node list" where
  "find_all P t = filter P (descendants t)"

definition find :: "(node \<Rightarrow> bool) \<Rightarrow> node \<Rightarrow> node option" where
  "find P t = (case find_all P t of [] \<Rightarrow> None | x # xs \<Rightarrow> Some x)"

text \<open>The matchers the scraper uses: a tag name, one of several tag names, a tag name
  with an attribute present (\<open>href=True\<close>), a tag name with an attribute of a given value.\<close>

fun named :: "string \<Rightarrow> node \<Rightarrow> bool" where
  "named nm (Tag n a cs) = (n = nm)"
| "named nm x = False"

fun named_in :: "string list \<Rightarrow> node \<Rightarrow> bool" where
  "named_in nms (Tag n a cs) = (n \<in> set nms)"
| "named_in nms x = False"

fun named_with_attr :: "string \<Rightarrow> string \<Rightarrow> node \<Rightarrow> bool" where
  "named_with_attr nm k (Tag n a cs) = (n = nm \<and> map_of a k \<noteq> None)"
| "named_with_attr nm k x = False"

fun named_attr_eq :: "string \<Rightarrow> string \<Rightarrow> string \<Rightarrow> node \<Rightarrow> bool" where
  "named_attr_eq nm k v (Tag n a cs) = (n = nm \<and> map_of a k = Some v)"
| "named_attr_eq nm k v x = False"

text \<open>\<open>tag[key]\<close>: the attribute, or KeyError.\<close>

fun get_attr :: "node \<Rightarrow> string \<Rightarrow> pyerr + string" where
  "get_attr (Tag n a cs) k = (case map_of a k of None \<Rightarrow> Inl (KeyError k) | Some v \<Rightarrow> Inr v)"
| "get_attr x k = Inl (KeyError k)"

text \<open>\<open>tag.string\<close>: the single string below a tag that has exactly one child, through
  any chain of only children; \<open>None\<close> otherwise.\<close>

fun tag_string :: "node \<Rightarrow> string option" where
  "tag_string (Tag n a [c]) = tag_string c"
| "tag_string (Tag n a cs) = None"
| "tag_string (NavigableString s) = Some s"
| "tag_string (Comment s) = Some s"

text \<open>\<open>tag.get_text()\<close>: the text nodes below the tag, concatenated.\<close>

fun text_of :: "node \<Rightarrow> string" where
  "text_of (NavigableString s) = s"
| "text_of x = []"

definition get_text :: "node \<Rightarrow> string" where
  "get_text t = concat (map text_of (descendants t))"

text \<open>
  \<^verbatim>\<open>
  for element in soup(["script", "style", "nav", "footer", "header"]):
      element.decompose()
  \<close>
  Every tag of one of these names leaves the tree with all that is below it; what
  remains is the tree without them.
\<close>

fun decompose_all :: "string list \<Rightarrow> node \<Rightarrow> node"
  and decompose_children :: "string list \<Rightarrow> node list \<Rightarrow> node list" where
  "decompose_all nms (Tag n a cs) = Tag n a (decompose_children nms cs)"
| "decompose_all nms (NavigableString s) = NavigableString s"
| "decompose_all nms (Comment s) = Comment s"
| "decompose_children nms [] = []"
| "decompose_children nms (c # cs) =
     (if named_in nms c then decompose_children nms cs
      else decompose_all nms c # decompose_children nms cs)"

section \<open>The world outside the scraper\<close>

text \<open>
  What the scraper does to the outside world is recorded as a trace of events: a
  reading of the clock (\<open>time.time()\<close>), the two places where it sleeps (the wait of the
  rate limiter and the backoff after a failed attempt, each with the seconds asked for),
  an HTTP GET of a page, the retrieval of a robots document, and a navigation of the
  headless browser. Log messages are left out.
\<close>

datatype event =
    ReadClock
  | RateLimitSleep real
  | BackoffSleep real
  | HttpGet string
  | RobotsRead string
  | Render string

record parsed_url =
  scheme :: string
  netloc :: string

record response =
  status_code :: nat
  resp_text :: string

text \<open>
  The collaborators the scraper calls, taken as parameters: \<open>urlparse\<close> and \<open>urljoin\<close> of
  the standard library (both can raise ValueError), the wall clock, \<open>requests.get\<close> (given
  the URL, the user agent header and the timeout), what the robots parser of the
  standard library calls (\<open>urllib.request.urlopen\<close> with the reading of the response,
  giving the raw document; its decoding as UTF-8; and \<open>allowance\<close>, the matching of a user
  agent and a URL against the rules of a parsed document), the launch of the headless
  browser, its navigation to a page returning the rendered document, and the markup
  parser. Whatever depends on the moment of the call takes the trace so far.
\<close>

record env =
  urlparse :: "string \<Rightarrow> pyerr + parsed_url"
  urljoin :: "string \<Rightarrow> string \<Rightarrow> pyerr + string"
  clock :: "event list \<Rightarrow> real"
  requests_get :: "event list \<Rightarrow> string \<Rightarrow> string \<Rightarrow> real \<Rightarrow> pyerr + response"
  urlopen :: "event list \<Rightarrow> string \<Rightarrow> pyerr + string"
  decode_utf8 :: "string \<Rightarrow> pyerr + string"
  allowance :: "string \<Rightarrow> string \<Rightarrow> string \<Rightarrow> pyerr + bool"
  playwright_launch :: "event list \<Rightarrow> pyerr option"
  page_content :: "event list \<Rightarrow> string \<Rightarrow> string \<Rightarrow> real \<Rightarrow> pyerr + string"
  BeautifulSoup :: "string \<Rightarrow> pyerr + node"

text \<open>The attributes of a \<open>WebScraper\<close> instance that never change after \<open>__init__\<close>.\<close>

record config =
  user_agent :: string
  rate_limit :: real
  timeout :: real
  max_retries :: int
  summarize_content :: bool
  enable_js :: bool

text \<open>\<open>__init__\<close>: rendering is enabled only when asked for and Playwright is installed.\<close>

definition WebScraper :: "bool \<Rightarrow> string \<Rightarrow> real \<Rightarrow> real \<Rightarrow> int \<Rightarrow> bool \<Rightarrow> bool \<Rightarrow> config" where
  "WebScraper PLAYWRIGHT_INSTALLED ua rl tmo retries js summ =
     \<lparr>user_agent = ua, rate_limit = rl, timeout = tmo, max_retries = retries,
      summarize_content = summ, enable_js = (js \<and> PLAYWRIGHT_INSTALLED)\<rparr>"

text \<open>The state that changes: the trace and the table \<open>self.last_request_time\<close>.\<close>

record world =
  trace :: "event list"
  last_request_time :: "string \<rightharpoonup> real"

definition emit :: "event \<Rightarrow> world \<Rightarrow> world" where
  "emit e w = w\<lparr>trace := trace w @ [e]\<rparr>"

definition time_time :: "env \<Rightarrow> world \<Rightarrow> real \<times> world" where
  "time_time env w = (clock env (trace w), emit ReadClock w)"

section \<open>Robots gate, rate limiter, fetcher\<close>

text \<open>
  The \<open>RobotFileParser\<close> of the standard library (\<open>urllib/robotparser.py\<close>), which the gate
  calls: its two flags, whether \<open>last_checked\<close> has been set (\<open>parse\<close> sets it to the
  current time), and the text given to \<open>parse\<close>, which stands for the rules parsed from
  it.
  \<^verbatim>\<open>
  def read(self):
      try:
          f = urllib.request.urlopen(self.url)
      except urllib.error.HTTPError as err:
          if err.code in (401, 403):
              self.disallow_all = True
          elif err.code >= 400 and err.code < 500:
              self.allow_all = True
      else:
          raw = f.read()
          self.parse(raw.decode("utf-8").splitlines())

  def can_fetch(self, useragent, url):
      if self.disallow_all:
          return False
      if self.allow_all:
          return True
      if not self.last_checked:
          return False
      ... (the rules are matched against the user agent and the URL)
  \<close>
  An \<open>HTTPError\<close> of \<open>urlopen\<close> is caught in \<open>read\<close>; any other exception leaves it.
\<close>

record RobotFileParser =
  disallow_all :: bool
  allow_all :: bool
  last_checked :: bool
  robots_txt :: string

definition new_parser :: RobotFileParser where
  "new_parser = \<lparr>disallow_all = False, allow_all = False, last_checked = False, robots_txt = []\<rparr>"

definition rp_read :: "env \<Rightarrow> event list \<Rightarrow> string \<Rightarrow> pyerr + RobotFileParser" where
  "rp_read env h url =
     (case urlopen env h url of
        Inl err \<Rightarrow>
          (case http_error_code err of
             None \<Rightarrow> Inl err
           | Some code \<Rightarrow>
               (if code = 401 \<or> code = 403 then Inr (new_parser\<lparr>disallow_all := True\<rparr>)
                else if 400 \<le> code \<and> code < 500 then Inr (new_parser\<lparr>allow_all := True\<rparr>)
                else Inr new_parser))
      | Inr raw \<Rightarrow>
          (case decode_utf8 env raw of
             Inl e \<Rightarrow> Inl e
           | Inr txt \<Rightarrow> Inr (new_parser\<lparr>last_checked := True, robots_txt := txt\<rparr>)))"

definition rp_can_fetch :: "env \<Rightarrow> RobotFileParser \<Rightarrow> string \<Rightarrow> string \<Rightarrow> pyerr + bool" where
  "rp_can_fetch env rp useragent url =
     (if disallow_all rp then Inr False
      else if allow_all rp then Inr True
      else if \<not> last_checked rp then Inr False
      else allowance env (robots_txt rp) useragent url)"

text \<open>
  \<^verbatim>\<open>
  def can_fetch(self, url):
      parsed_url = urlparse(url)
      robots_url = f"{parsed_url.scheme}://{parsed_url.netloc}/robots.txt"
      rp = RobotFileParser()
      rp.set_url(robots_url)
      try:
          rp.read()
          return rp.can_fetch(self.user_agent, url)
      except Exception as e:
          self.logger.warning(...)
          return True
  \<close>
\<close>

definition can_fetch :: "env \<Rightarrow> config \<Rightarrow> world \<Rightarrow> string \<Rightarrow> (pyerr + bool) \<times> world" where
  "can_fetch env cfg w url =
     (case urlparse env url of
        Inl e \<Rightarrow> (Inl e, w)
      | Inr parsed \<Rightarrow>
          (let robots_url = scheme parsed @ ''://'' @ netloc parsed @ ''/robots.txt'';
               w1 = emit (RobotsRead robots_url) w
           in case rp_read env (trace w) robots_url of
                Inl e \<Rightarrow> (Inr True, w1)
              | Inr rp \<Rightarrow>
                  (case rp_can_fetch env rp (user_agent cfg) url of
                     Inl e \<Rightarrow> (Inr True, w1)
                   | Inr allowed \<Rightarrow> (Inr allowed, w1))))"

text \<open>
  \<^verbatim>\<open>
  def respect_rate_limit(self, url):
      domain = urlparse(url).netloc
      current_time = time.time()
      if domain in self.last_request_time:
          elapsed_time = current_time - self.last_request_time[domain]
          if elapsed_time < self.rate_limit:
              time.sleep(self.rate_limit - elapsed_time)
      self.last_request_time[domain] = time.time()
  \<close>
\<close>

definition respect_rate_limit :: "env \<Rightarrow> config \<Rightarrow> world \<Rightarrow> string \<Rightarrow> (pyerr + unit) \<times> world" where
  "respect_rate_limit env cfg w url =
     (case urlparse env url of
        Inl e \<Rightarrow> (Inl e, w)
      | Inr parsed \<Rightarrow>
          (let domain = netloc parsed;
               (current_time, w1) = time_time env w;
               w2 = (case last_request_time w1 domain of
                       None \<Rightarrow> w1
                     | Some t \<Rightarrow>
                         (let elapsed_time = current_time - t
                          in if elapsed_time < rate_limit cfg
                             then emit (RateLimitSleep (rate_limit cfg - elapsed_time)) w1
                             else w1));
               (t2, w3) = time_time env w2
           in (Inr (), w3\<lparr>last_request_time := (last_request_time w3)(domain \<mapsto> t2)\<rparr>)))"

text \<open>
  \<^verbatim>\<open>
  def fetch_page(self, url):
      for attempt in range(self.max_retries):
          try:
              self.respect_rate_limit(url)
              headers = {"User-Agent": self.user_agent}
              response = requests.get(url, headers=headers, timeout=self.timeout)
              response.raise_for_status()
              return response.text
          except requests.RequestException as e:
              self.logger.warning(...)
              time.sleep(2 ** attempt)  # Exponential backoff
      self.logger.error(...)
      return None
  \<close>
  \<open>raise_for_status\<close> raises an \<open>HTTPError\<close>, a \<open>RequestException\<close>, for a status from
  400 to 599. An exception of another class leaves the loop and the function.
\<close>

definition raise_for_status :: "response \<Rightarrow> pyerr + unit" where
  "raise_for_status r =
     (if 400 \<le> status_code r \<and> status_code r < 600
      then Inl (RequestException ''HTTPError'') else Inr ())"

text \<open>The body of the \<open>try\<close>: the string returned, or the exception raised in it.\<close>

definition fetch_try :: "env \<Rightarrow> config \<Rightarrow> world \<Rightarrow> string \<Rightarrow> (pyerr + string) \<times> world" where
  "fetch_try env cfg w url =
     (case respect_rate_limit env cfg w url of
        (Inl e, w1) \<Rightarrow> (Inl e, w1)
      | (Inr u, w1) \<Rightarrow>
          (let w2 = emit (HttpGet url) w1
           in case requests_get env (trace w1) url (user_agent cfg) (timeout cfg) of
                Inl e \<Rightarrow> (Inl e, w2)
              | Inr response \<Rightarrow>
                  (case raise_for_status response of
                     Inl e \<Rightarrow> (Inl e, w2)
                   | Inr u \<Rightarrow> (Inr (resp_text response), w2))))"

fun fetch_attempts :: "env \<Rightarrow> config \<Rightarrow> string \<Rightarrow> nat list \<Rightarrow> world \<Rightarrow> (pyerr + string option) \<times> world" where
  "fetch_attempts env cfg url [] w = (Inr None, w)"
| "fetch_attempts env cfg url (attempt # rest) w =
     (case fetch_try env cfg w url of
        (Inr body, w1) \<Rightarrow> (Inr (Some body), w1)
      | (Inl e, w1) \<Rightarrow>
          (if is_RequestException e
           then fetch_attempts env cfg url rest (emit (BackoffSleep (2 ^ attempt)) w1)
           else (Inl e, w1)))"

definition fetch_page :: "env \<Rightarrow> config \<Rightarrow> world \<Rightarrow> string \<Rightarrow> (pyerr + string option) \<times> world" where
  "fetch_page env cfg w url = fetch_attempts env cfg url [0..<nat (max_retries cfg)] w"

text \<open>
  \<^verbatim>\<open>
  def fetch_js_page(self, url):
      if not self.enable_js:
          self.logger.warning("JavaScript rendering is disabled.")
          return None
      with sync_playwright() as p:
          browser = p.chromium.launch(headless=True)
          try:
              context = browser.new_context(user_agent=self.user_agent)
              page = context.new_page()
              page.goto(url, timeout=self.timeout * 1000)
              content = page.content()
              return content
          except Exception as e:
              self.logger.error(...)
              return None
          finally:
              browser.close()
  \<close>
\<close>

definition fetch_js_page :: "env \<Rightarrow> config \<Rightarrow> world \<Rightarrow> string \<Rightarrow> (pyerr + string option) \<times> world" where
  "fetch_js_page env cfg w url =
     (if \<not> enable_js cfg then (Inr None, w)
      else (case playwright_launch env (trace w) of
              Some e \<Rightarrow> (Inl e, w)
            | None \<Rightarrow>
                (let w1 = emit (Render url) w
                 in case page_content env (trace w) url (user_agent cfg) (timeout cfg * 1000) of
                      Inl e \<Rightarrow> (Inr None, w1)
                    | Inr content \<Rightarrow> (Inr (Some content), w1))))"

section \<open>The content extractor\<close>

text \<open>
  \<^verbatim>\<open>
  def extract_metadata(self, soup):
      metadata = {
          "title": soup.title.string if soup.title else "No Title",
          "description": soup.find("meta", attrs={"name": "description"})["content"]
          if soup.find("meta", attrs={"name": "description"}) else "No Description",
          "keywords": soup.find("meta", attrs={"name": "keywords"})["content"]
          if soup.find("meta", attrs={"name": "keywords"}) else "No Keywords",
      }
      return metadata
  \<close>
  \<open>soup.title\<close> is \<open>soup.find("title")\<close>, and a tag is always true. The subscript
  \<open>["content"]\<close> raises KeyError when the meta tag has no such attribute.
\<close>

definition meta_content :: "node \<Rightarrow> string \<Rightarrow> string \<Rightarrow> pyerr + pyval" where
  "meta_content soup nm dflt =
     (case find (named_attr_eq ''meta'' ''name'' nm) soup of
        None \<Rightarrow> Inr (PStr dflt)
      | Some m \<Rightarrow> (case get_attr m ''content'' of Inl e \<Rightarrow> Inl e | Inr v \<Rightarrow> Inr (PStr v)))"

definition extract_metadata :: "node \<Rightarrow> pyerr + fetch_result" where
  "extract_metadata soup =
     (let title = (case find (named ''title'') soup of
                     None \<Rightarrow> PStr ''No Title''
                   | Some t \<Rightarrow> (case tag_string t of None \<Rightarrow> PNone | Some s \<Rightarrow> PStr s))
      in case meta_content soup ''description'' ''No Description'' of
           Inl e \<Rightarrow> Inl e
         | Inr description \<Rightarrow>
             (case meta_content soup ''keywords'' ''No Keywords'' of
                Inl e \<Rightarrow> Inl e
              | Inr keywords \<Rightarrow>
                  Inr [''title'' \<mapsto> title, ''description'' \<mapsto> description,
                       ''keywords'' \<mapsto> keywords]))"

text \<open>A list comprehension whose element expression can raise: the first exception
  ends it.\<close>

fun map_err :: "('a \<Rightarrow> pyerr + 'b) \<Rightarrow> 'a list \<Rightarrow> pyerr + 'b list" where
  "map_err f [] = Inr []"
| "map_err f (x # xs) =
     (case f x of
        Inl e \<Rightarrow> Inl e
      | Inr y \<Rightarrow> (case map_err f xs of Inl e \<Rightarrow> Inl e | Inr ys \<Rightarrow> Inr (y # ys)))"

text \<open>
  \<^verbatim>\<open>
  main_content = (soup.find("main") or soup.find("article") or
                  soup.find("section") or soup.find("div") or soup)
  \<close>
\<close>

definition main_content :: "node \<Rightarrow> node" where
  "main_content soup =
     (case find (named ''main'') soup of
        Some m \<Rightarrow> m
      | None \<Rightarrow>
          (case find (named ''article'') soup of
             Some a \<Rightarrow> a
           | None \<Rightarrow>
               (case find (named ''section'') soup of
                  Some s \<Rightarrow> s
                | None \<Rightarrow> (case find (named ''div'') soup of Some d \<Rightarrow> d | None \<Rightarrow> soup))))"

text \<open>
  \<^verbatim>\<open>
  paragraphs = main_content.find_all("p") if main_content else []
  content = " ".join(p.get_text().strip() for p in paragraphs)[:2400]
  \<close>
\<close>

definition body_text :: "node \<Rightarrow> string" where
  "body_text soup =
     (let paragraphs = find_all (named ''p'') (main_content soup)
      in take 2400 (py_join '' '' (map (\<lambda>p. py_strip (get_text p)) paragraphs)))"

text \<open>
  \<^verbatim>\<open>
  def extract_content(self, html, url):
      soup = BeautifulSoup(html, "html.parser")
      for element in soup(["script", "style", "nav", "footer", "header"]):
          element.decompose()
      metadata = self.extract_metadata(soup)
      main_content = ...
      paragraphs = ...
      content = ...
      links = [urljoin(url, a["href"])
               for a in soup.find_all("a", href=True)][:10]
      if self.summarize_content and len(content.split()) > 100:
          content = self.summarize_text(content)
      return {
          **metadata,
          "content": content or "No main content found.",
          "links": list(set(links)),  # Deduplicate links
      }
  \<close>
\<close>

definition resolve_link :: "env \<Rightarrow> string \<Rightarrow> node \<Rightarrow> pyerr + string" where
  "resolve_link env url a =
     (case get_attr a ''href'' of Inl e \<Rightarrow> Inl e | Inr href \<Rightarrow> urljoin env url href)"

definition resolved_links :: "env \<Rightarrow> string \<Rightarrow> node \<Rightarrow> pyerr + string list" where
  "resolved_links env url soup =
     map_err (resolve_link env url) (find_all (named_with_attr ''a'' ''href'') soup)"

definition extract_content :: "env \<Rightarrow> config \<Rightarrow> string \<Rightarrow> string \<Rightarrow> pyerr + fetch_result" where
  "extract_content env cfg html url =
     (case BeautifulSoup env html of
        Inl e \<Rightarrow> Inl e
      | Inr parsed \<Rightarrow>
          (let soup = decompose_all [''script'', ''style'', ''nav'', ''footer'', ''header''] parsed
           in case extract_metadata soup of
                Inl e \<Rightarrow> Inl e
              | Inr metadata \<Rightarrow>
                  (let content = body_text soup
                   in case resolved_links env url soup of
                        Inl e \<Rightarrow> Inl e
                      | Inr resolved \<Rightarrow>
                          (let links = take 10 resolved;
                               content' = (if summarize_content cfg
                                              \<and> length (py_split_ws content) > 100
                                           then summarize_text content else content)
                           in Inr (metadata
                                (''content'' \<mapsto>
                                   PStr (if content' = [] then ''No main content found.''
                                         else content'),
                                 ''links'' \<mapsto> PListOfSet (set links)))))))"

section \<open>The orchestrator\<close>

text \<open>
  \<^verbatim>\<open>
  def scrape_page(self, url):
      if not self.can_fetch(url):
          return {"content": "Access denied by robots.txt", "links": [], "title": "No Title"}
      html = self.fetch_js_page(url) if self.enable_js else self.fetch_page(url)
      if not html:
          return {"content": f"Failed to fetch {url}", "links": [], "title": "No Title"}
      return self.extract_content(html, url)
  \<close>
  \<open>not html\<close> holds for \<open>None\<close> and for the empty string.
\<close>

definition denied_result :: fetch_result where
  "denied_result =
     [''content'' \<mapsto> PStr ''Access denied by robots.txt'', ''links'' \<mapsto> PList [],
      ''title'' \<mapsto> PStr ''No Title'']"

definition failed_result :: "string \<Rightarrow> fetch_result" where
  "failed_result url =
     [''content'' \<mapsto> PStr (''Failed to fetch '' @ url), ''links'' \<mapsto> PList [],
      ''title'' \<mapsto> PStr ''No Title'']"

definition scrape_page :: "env \<Rightarrow> config \<Rightarrow> world \<Rightarrow> string \<Rightarrow> (pyerr + fetch_result) \<times> world" where
  "scrape_page env cfg w url =
     (case can_fetch env cfg w url of
        (Inl e, w1) \<Rightarrow> (Inl e, w1)
      | (Inr allowed, w1) \<Rightarrow>
          (if \<not> allowed then (Inr denied_result, w1)
           else (case (if enable_js cfg then fetch_js_page env cfg w1 url
                       else fetch_page env cfg w1 url) of
                   (Inl e, w2) \<Rightarrow> (Inl e, w2)
                 | (Inr html, w2) \<Rightarrow>
                     (case html of
                        None \<Rightarrow> (Inr (failed_result url), w2)
                      | Some markup \<Rightarrow>
                          (if markup = [] then (Inr (failed_result url), w2)
                           else (extract_content env cfg markup url, w2))))))"

text \<open>
  \<^verbatim>\<open>
  def scrape_multiple_pages(self, urls):
      results = {}
      for url in urls:
          self.logger.info(f"Scraping {url}...")
          results[url] = self.scrape_page(url)
      return results
  \<close>
  An exception raised by \<open>scrape_page\<close> is not caught here: it ends the loop.
\<close>

fun scrape_loop :: "env \<Rightarrow> config \<Rightarrow> (string \<rightharpoonup> fetch_result) \<Rightarrow> string list \<Rightarrow> world
    \<Rightarrow> (pyerr + (string \<rightharpoonup> fetch_result)) \<times> world" where
  "scrape_loop env cfg results [] w = (Inr results, w)"
| "scrape_loop env cfg results (url # urls) w =
     (case scrape_page env cfg w url of
        (Inl e, w1) \<Rightarrow> (Inl e, w1)
      | (Inr r, w1) \<Rightarrow> scrape_loop env cfg (results(url \<mapsto> r)) urls w1)"

definition scrape_multiple_pages :: "env \<Rightarrow> config \<Rightarrow> world \<Rightarrow> string list
    \<Rightarrow> (pyerr + (string \<rightharpoonup> fetch_result)) \<times> world" where
  "scrape_multiple_pages env cfg w urls = scrape_loop env cfg Map.empty urls w"

section \<open>The selection of the main content, as the specification words it\<close>

text \<open>
  "The first present of, in priority order, a main, an article, a section, a div;
  falling back to the whole document if none exist": a tag name is present when some
  node below the document carries it, and its first node is the first in document order.
\<close>

fun first_present :: "string list \<Rightarrow> node \<Rightarrow> node" where
  "first_present [] soup = soup"
| "first_present (nm # nms) soup =
     (if list_ex (named nm) (descendants soup)
      then hd (filter (named nm) (descendants soup))
      else first_present nms soup)"

definition spec_main_content :: "node \<Rightarrow> node" where
  "spec_main_content soup = first_present [''main'', ''article'', ''section'', ''div''] soup"

text \<open>The events of the retry loop itself: the GETs and the backoff sleeps.\<close>

fun fetch_event :: "event \<Rightarrow> bool" where
  "fetch_event (HttpGet u) = True"
| "fetch_event (BackoffSleep d) = True"
| "fetch_event e = False"

section \<open>Concrete collaborators for examples\<close>

text \<open>
  The two fields of \<open>urllib.parse.urlparse\<close> that the scraper reads. A scheme is what
  stands before the first colon when that is non-empty and made of letters, digits,
  \<open>+\<close>, \<open>-\<close> and \<open>.\<close> only, in lower case; the netloc is what follows a leading \<open>//\<close> up to
  the next \<open>/\<close>, \<open>?\<close> or \<open>#\<close>: it holds the host with any user information and port. A
  netloc with one square bracket and not the other raises ValueError. The theorems below
  hold for every \<open>urlparse\<close>; this one serves the concrete examples.
\<close>

definition is_scheme_char :: "char \<Rightarrow> bool" where
  "is_scheme_char c =
     (let n = (of_char c :: nat)
      in (97 \<le> n \<and> n \<le> 122) \<or> (65 \<le> n \<and> n \<le> 90) \<or> (48 \<le> n \<and> n \<le> 57)
         \<or> c = CHR ''+'' \<or> c = CHR ''-'' \<or> c = CHR ''.'')"

definition ascii_lower :: "char \<Rightarrow> char" where
  "ascii_lower c =
     (case map_of (zip ''ABCDEFGHIJKLMNOPQRSTUVWXYZ'' ''abcdefghijklmnopqrstuvwxyz'') c of
        None \<Rightarrow> c
      | Some l \<Rightarrow> l)"

definition py_urlparse :: "string \<Rightarrow> pyerr + parsed_url" where
  "py_urlparse url =
     (let pre = takeWhile (\<lambda>c. c \<noteq> CHR '':'') url;
          post = dropWhile (\<lambda>c. c \<noteq> CHR '':'') url;
          has_scheme = (post \<noteq> [] \<and> pre \<noteq> [] \<and> list_all is_scheme_char pre);
          sch = (if has_scheme then map ascii_lower pre else []);
          rest = (if has_scheme then tl post else url)
      in if take 2 rest = ''//''
         then (let nl = takeWhile (\<lambda>c. c \<notin> set ''/?#'') (drop 2 rest)
               in if (CHR ''['' \<in> set nl \<and> CHR '']'' \<notin> set nl)
                     \<or> (CHR '']'' \<in> set nl \<and> CHR ''['' \<notin> set nl)
                  then Inl (ValueError ''Invalid IPv6 URL'')
                  else Inr \<lparr>scheme = sch, netloc = nl\<rparr>)
         else Inr \<lparr>scheme = sch, netloc = []\<rparr>)"

text \<open>
  A small web for the examples. Every robots document is empty and allows everything,
  except on five hosts: \<open>closed.example\<close> serves a document that denies everything;
  \<open>norobots.example\<close> cannot be reached; \<open>busy.example\<close>, \<open>forbidden.example\<close> and
  \<open>missing.example\<close> answer the request for the robots document with the status 503,
  403 and 404. Every URL on \<open>http://down.example/\<close> answers
  every GET with status 500; \<open>http://empty.example/\<close> answers 200 with an empty body;
  three URLs answer 200 with the three documents below, every other URL with a plain
  text. The parser is given by the trees of these three documents and reads anything
  else as a document holding one text node. \<open>urljoin\<close> is used on absolute references
  only, which it returns as they are. On the clock a sleep takes the seconds asked for,
  a retrieval a tenth of a second, and reading the clock no time.
\<close>

definition long_url :: string where
  "long_url = ''http://down.example/'' @ replicate 2400 (CHR ''a'')"

fun duration :: "event \<Rightarrow> real" where
  "duration ReadClock = 0"
| "duration (RateLimitSleep d) = d"
| "duration (BackoffSleep d) = d"
| "duration (HttpGet u) = 1 / 10"
| "duration (RobotsRead u) = 1 / 10"
| "duration (Render u) = 1 / 10"

definition demo_clock :: "event list \<Rightarrow> real" where
  "demo_clock h = sum_list (map duration h)"

text \<open>A document whose description tag has no \<open>content\<close> attribute.\<close>

definition meta_markup :: string where
  "meta_markup = ''<meta name=description>''"

definition meta_tree :: node where
  "meta_tree = Tag ''[document]'' [] [Tag ''meta'' [(''name'', ''description'')] []]"

text \<open>A document of ten anchors to one address followed by nine anchors to nine other
  addresses.\<close>

definition links_markup :: string where
  "links_markup =
     ''<a href=http://x/0>a</a><a href=http://x/0>b</a><a href=http://x/0>c</a>''
     @ ''<a href=http://x/0>d</a><a href=http://x/0>e</a><a href=http://x/0>f</a>''
     @ ''<a href=http://x/0>g</a><a href=http://x/0>h</a><a href=http://x/0>i</a>''
     @ ''<a href=http://x/0>j</a><a href=http://x/1>k</a><a href=http://x/2>l</a>''
     @ ''<a href=http://x/3>m</a><a href=http://x/4>n</a><a href=http://x/5>o</a>''
     @ ''<a href=http://x/6>p</a><a href=http://x/7>q</a><a href=http://x/8>r</a>''
     @ ''<a href=http://x/9>s</a>''"

definition anchor :: "string \<Rightarrow> string \<Rightarrow> node" where
  "anchor href label = Tag ''a'' [(''href'', href)] [NavigableString label]"

definition links_tree :: node where
  "links_tree =
     Tag ''[document]'' []
       [anchor ''http://x/0'' ''a'', anchor ''http://x/0'' ''b'', anchor ''http://x/0'' ''c'',
        anchor ''http://x/0'' ''d'', anchor ''http://x/0'' ''e'', anchor ''http://x/0'' ''f'',
        anchor ''http://x/0'' ''g'', anchor ''http://x/0'' ''h'', anchor ''http://x/0'' ''i'',
        anchor ''http://x/0'' ''j'', anchor ''http://x/1'' ''k'', anchor ''http://x/2'' ''l'',
        anchor ''http://x/3'' ''m'', anchor ''http://x/4'' ''n'', anchor ''http://x/5'' ''o'',
        anchor ''http://x/6'' ''p'', anchor ''http://x/7'' ''q'', anchor ''http://x/8'' ''r'',
        anchor ''http://x/9'' ''s'']"

text \<open>A document with a div before its main element, and text outside any paragraph.\<close>

definition main_markup :: string where
  "main_markup = ''<div><p>in div</p></div>loose text<main><p> in main </p>more</main>''"

definition main_tree :: node where
  "main_tree =
     Tag ''[document]'' []
       [Tag ''div'' [] [Tag ''p'' [] [NavigableString ''in div'']],
        NavigableString ''loose text'',
        Tag ''main'' [] [Tag ''p'' [] [NavigableString '' in main ''], NavigableString ''more'']]"

text \<open>A document of two paragraphs: a first one of 2399 characters, three sentences and
  1199 words, and a second one of one letter.\<close>

definition full_tree :: node where
  "full_tree =
     Tag ''[document]'' []
       [Tag ''main'' []
          [Tag ''p'' [] [NavigableString (''a. b. '' @ concat (replicate 1196 ''w '') @ ''.'')],
           Tag ''p'' [] [NavigableString ''z'']]]"

definition demo_get :: "event list \<Rightarrow> string \<Rightarrow> string \<Rightarrow> real \<Rightarrow> pyerr + response" where
  "demo_get h url ua tmo =
     (if prefix ''http://down.example/'' url
      then Inr \<lparr>status_code = 500, resp_text = ''Internal Server Error''\<rparr>
      else if url = ''http://empty.example/'' then Inr \<lparr>status_code = 200, resp_text = []\<rparr>
      else if url = ''http://meta.example/'' then Inr \<lparr>status_code = 200, resp_text = meta_markup\<rparr>
      else if url = ''http://links.example/'' then Inr \<lparr>status_code = 200, resp_text = links_markup\<rparr>
      else if url = ''http://main.example/'' then Inr \<lparr>status_code = 200, resp_text = main_markup\<rparr>
      else Inr \<lparr>status_code = 200, resp_text = ''hello''\<rparr>)"

definition deny_all_txt :: string where
  "deny_all_txt = ''User-agent: *'' @ [CHR 0x0A] @ ''Disallow: /''"

definition demo_urlopen :: "event list \<Rightarrow> string \<Rightarrow> pyerr + string" where
  "demo_urlopen h robots_url =
     (if robots_url = ''http://norobots.example/robots.txt''
      then Inl (OtherException ''URLError'')
      else if robots_url = ''http://busy.example/robots.txt'' then Inl (UrllibHTTPError 503)
      else if robots_url = ''http://forbidden.example/robots.txt'' then Inl (UrllibHTTPError 403)
      else if robots_url = ''http://missing.example/robots.txt'' then Inl (UrllibHTTPError 404)
      else if robots_url = ''http://closed.example/robots.txt'' then Inr deny_all_txt
      else Inr [])"

text \<open>The rules of the two documents of the examples: the one of \<open>closed.example\<close> denies
  every URL to every agent, the empty one allows everything.\<close>

definition demo_allowance :: "string \<Rightarrow> string \<Rightarrow> string \<Rightarrow> pyerr + bool" where
  "demo_allowance txt useragent url = Inr (txt \<noteq> deny_all_txt)"

definition demo_soup :: "string \<Rightarrow> pyerr + node" where
  "demo_soup html =
     (if html = meta_markup then Inr meta_tree
      else if html = links_markup then Inr links_tree
      else if html = main_markup then Inr main_tree
      else Inr (Tag ''[document]'' [] [NavigableString html]))"

definition demo_env :: env where
  "demo_env =
     \<lparr>urlparse = py_urlparse,
      urljoin = (\<lambda>base href. Inr href),
      clock = demo_clock,
      requests_get = demo_get,
      urlopen = demo_urlopen,
      decode_utf8 = Inr,
      allowance = demo_allowance,
      playwright_launch = (\<lambda>h. None),
      page_content = (\<lambda>h url ua tmo. Inr url),
      BeautifulSoup = demo_soup\<rparr>"

text \<open>The scraper of the module's own example: the defaults of \<open>__init__\<close>, no
  rendering, summarization on.\<close>

definition default_scraper :: config where
  "default_scraper = WebScraper False ''Mozilla/5.0'' 1 10 3 False True"

definition new_world :: world where
  "new_world = \<lparr>trace = [], last_request_time = Map.empty\<rparr>"

section \<open>Properties of the string functions and the summarizer\<close>

lemma py_split_not_Nil: "py_split sep s \<noteq> []"
  by (induction sep s rule: py_split.induct) (auto split: list.splits)

lemma py_join_Cons: "xs \<noteq> [] \<Longrightarrow> py_join sep (x # xs) = x @ sep @ py_join sep xs"
  by (cases xs) auto

lemma py_join_split: "sep \<noteq> [] \<Longrightarrow> py_join sep (py_split sep s) = s"
proof (induction sep s rule: py_split.induct)
  case (1 sep)
  then show ?case by simp
next
  case (2 sep c cs)
  show ?case
  proof (cases "prefix sep (c # cs)")
    case True
    then obtain r where r: "c # cs = sep @ r" by (auto simp: prefix_def)
    then have d: "drop (length sep) (c # cs) = r" by (metis append_eq_conv_conj)
    from 2 True have "py_join sep (py_split sep r) = r" using d by simp
    moreover have "py_split sep (c # cs) = [] # py_split sep r"
      using True 2(3) d by simp
    ultimately have "py_join sep (py_split sep (c # cs)) = sep @ r"
      using py_split_not_Nil[of sep r] by (simp add: py_join_Cons del: py_join.simps py_split.simps)
    then show ?thesis using r by simp
  next
    case False
    with 2 have ih: "py_join sep (py_split sep cs) = cs" by simp
    obtain x xs where s: "py_split sep cs = x # xs"
      using py_split_not_Nil[of sep cs] by (cases "py_split sep cs") auto
    show ?thesis using False ih s by (cases xs) auto
  qed
qed

lemma py_join_take_le: "length (py_join sep (take n xs)) \<le> length (py_join sep xs)"
proof (induction xs arbitrary: n)
  case Nil
  then show ?case by simp
next
  case (Cons x xs)
  show ?case
  proof (cases n)
    case 0
    then show ?thesis by simp
  next
    case (Suc m)
    show ?thesis
    proof (cases "take m xs = []")
      case True
      then show ?thesis using Suc by (cases xs) auto
    next
      case False
      then have "xs \<noteq> []" by auto
      then show ?thesis using Suc False Cons.IH[of m] by (simp add: py_join_Cons del: py_join.simps)
    qed
  qed
qed

lemma py_join_take_less:
  assumes "n < length xs" "0 < n"
  shows "length (py_join sep (take n xs)) + length sep \<le> length (py_join sep xs)"
  using assms
proof (induction xs arbitrary: n)
  case Nil
  then show ?case by simp
next
  case (Cons x xs)
  then obtain m where n: "n = Suc m" by (cases n) auto
  with Cons.prems have xs: "xs \<noteq> []" by auto
  show ?case
  proof (cases m)
    case 0
    then show ?thesis using n xs by (simp add: py_join_Cons)
  next
    case (Suc k)
    then have "take m xs \<noteq> []" using xs by auto
    moreover have "length (py_join sep (take m xs)) + length sep \<le> length (py_join sep xs)"
      using Cons.IH[of m] Cons.prems n Suc by simp
    ultimately show ?thesis using n xs by (simp add: py_join_Cons del: py_join.simps)
  qed
qed

lemma summarize_text_length: "length (summarize_text t) \<le> length t + 1"
proof -
  have "length (py_join ''. '' (take 3 (py_split ''. '' t))) + 2 \<le> length t"
    if "3 < length (py_split ''. '' t)"
    using py_join_take_less[of 3 "py_split ''. '' t" "''. ''"] that
      py_join_split[of "''. ''" t] by simp
  then show ?thesis by (auto simp: summarize_text_def Let_def)
qed

lemma summarize_text_grows: "summarize_text ''a. b. c. '' = ''a. b. c...''"
  by (simp add: summarize_text_def)

text \<open>
  C7. \<open>summarize_text\<close> splits on the literal \<open>". "\<close>; with at most 3 segments it returns
  the text unchanged, with more than 3 it returns the first 3 segments joined by \<open>". "\<close>
  followed by \<open>"..."\<close>; the text \<open>"A. B. C. D."\<close> has the segments A, B, C and D. and is
  summarized to \<open>"A. B. C..."\<close>.
\<close>

theorem summarize_text_spec:
  "(length (py_split ''. '' t) \<le> 3 \<longrightarrow> summarize_text t = t)
   \<and> (length (py_split ''. '' t) > 3 \<longrightarrow>
        summarize_text t = py_join ''. '' (take 3 (py_split ''. '' t)) @ ''...'')
   \<and> py_split ''. '' ''A. B. C. D.'' = [''A'', ''B'', ''C'', ''D.'']
   \<and> summarize_text ''A. B. C. D.'' = ''A. B. C...''"
  by (simp add: summarize_text_def)

theorem summarize_text_spec_witness:
  "length (py_split ''. '' ''One. Two.'') \<le> 3 \<and> summarize_text ''One. Two.'' = ''One. Two.''
   \<and> length (py_split ''. '' ''A. B. C. D.'') > 3
   \<and> summarize_text ''A. B. C. D.'' = py_join ''. '' (take 3 (py_split ''. '' ''A. B. C. D.'')) @ ''...''"
proof -
  have a: "length (py_split ''. '' ''One. Two.'') \<le> 3" by simp
  have b: "length (py_split ''. '' ''A. B. C. D.'') > 3" by simp
  show ?thesis
    using a b summarize_text_spec [of "''One. Two.''"] summarize_text_spec [of "''A. B. C. D.''"]
    by blast
qed

section \<open>Robots gate and orchestrator\<close>

lemmas demo_defs = demo_env_def default_scraper_def WebScraper_def new_world_def demo_get_def
  demo_urlopen_def demo_allowance_def deny_all_txt_def demo_soup_def demo_clock_def py_urlparse_def is_scheme_char_def
  ascii_lower_def meta_markup_def links_markup_def main_markup_def

lemmas scraper_defs = scrape_page_def can_fetch_def rp_read_def rp_can_fetch_def new_parser_def
  fetch_page_def fetch_try_def respect_rate_limit_def time_time_def emit_def
  raise_for_status_def fetch_js_page_def

text \<open>An exception that leaves \<open>read\<close> or the parser's \<open>can_fetch\<close> is caught by the gate, which
  answers true: a failure of \<open>urlopen\<close> other than an error status, a document that is
  not UTF-8, a failure while matching the rules.\<close>

lemma can_fetch_exception_allows:
  assumes "urlparse env url = Inr p"
    and "(urlopen env (trace w) (scheme p @ ''://'' @ netloc p @ ''/robots.txt'') = Inl e
            \<and> http_error_code e = None)
         \<or> (\<exists>raw. urlopen env (trace w) (scheme p @ ''://'' @ netloc p @ ''/robots.txt'') = Inr raw
                \<and> (decode_utf8 env raw = Inl e
                    \<or> (\<exists>txt. decode_utf8 env raw = Inr txt
                          \<and> allowance env txt (user_agent cfg) url = Inl e)))"
  shows "fst (can_fetch env cfg w url) = Inr True"
  using assms by (auto simp: can_fetch_def rp_read_def rp_can_fetch_def new_parser_def Let_def)

text \<open>An error status for the robots document raises nothing in \<open>read\<close>: the gate answers
  what the parser's flags say, true only for a status from 400 to 499 other than 401
  and 403.\<close>

lemma can_fetch_http_error:
  assumes "urlparse env url = Inr p"
    and "urlopen env (trace w) (scheme p @ ''://'' @ netloc p @ ''/robots.txt'')
           = Inl (UrllibHTTPError code)"
  shows "fst (can_fetch env cfg w url)
           = Inr (400 \<le> code \<and> code < 500 \<and> code \<noteq> 401 \<and> code \<noteq> 403)"
  using assms by (auto simp: can_fetch_def rp_read_def rp_can_fetch_def new_parser_def Let_def)

text \<open>
  C5. The robots document of \<open>busy.example\<close> cannot be retrieved: the request for it is
  answered with the status 503. The gate answers false for a URL of that host, and
  \<open>scrape_page\<close> returns the sentinel \<open>Access denied by robots.txt\<close>, where the claim, and
  the comment on the gate's \<open>return True\<close>, have the fetch allowed.
\<close>

theorem can_fetch_blocks_on_server_error:
  "urlparse demo_env ''http://busy.example/page''
     = Inr \<lparr>scheme = ''http'', netloc = ''busy.example''\<rparr>
   \<and> urlopen demo_env [] ''http://busy.example/robots.txt'' = Inl (UrllibHTTPError 503)
   \<and> can_fetch demo_env default_scraper new_world ''http://busy.example/page''
       = (Inr False,
          \<lparr>trace = [RobotsRead ''http://busy.example/robots.txt''], last_request_time = Map.empty\<rparr>)
   \<and> scrape_page demo_env default_scraper new_world ''http://busy.example/page''
       = (Inr [''content'' \<mapsto> PStr ''Access denied by robots.txt'', ''links'' \<mapsto> PList [],
               ''title'' \<mapsto> PStr ''No Title''],
          \<lparr>trace = [RobotsRead ''http://busy.example/robots.txt''], last_request_time = Map.empty\<rparr>)"
  by (simp add: demo_defs scraper_defs denied_result_def Let_def)

text \<open>The same gate on a host that cannot be reached at all, and on hosts answering 403
  and 404.\<close>

lemma can_fetch_examples:
  "fst (can_fetch demo_env default_scraper new_world ''http://norobots.example/page'') = Inr True
   \<and> fst (can_fetch demo_env default_scraper new_world ''http://forbidden.example/page'') = Inr False
   \<and> fst (can_fetch demo_env default_scraper new_world ''http://missing.example/page'') = Inr True"
  by (simp add: demo_defs scraper_defs Let_def)

text \<open>
  C8. When the robots gate answers false, \<open>scrape_page\<close> returns exactly the sentinel with
  the content \<open>Access denied by robots.txt\<close>, no links and the title \<open>No Title\<close>, and it
  fetches no page: the only event it adds to the trace is the retrieval of the robots
  document, and the rate limiter's table is untouched.
\<close>

theorem scrape_page_denied:
  assumes "can_fetch env cfg w url = (Inr False, w1)"
  shows "scrape_page env cfg w url =
           (Inr [''content'' \<mapsto> PStr ''Access denied by robots.txt'', ''links'' \<mapsto> PList [],
                 ''title'' \<mapsto> PStr ''No Title''], w1)
         \<and> last_request_time w1 = last_request_time w
         \<and> (\<exists>r. trace w1 = trace w @ [RobotsRead r])"
proof -
  have "scrape_page env cfg w url = (Inr denied_result, w1)"
    using assms by (simp add: scrape_page_def)
  moreover have "last_request_time w1 = last_request_time w \<and> (\<exists>r. trace w1 = trace w @ [RobotsRead r])"
    using assms by (auto simp: can_fetch_def Let_def emit_def split: sum.splits)
  ultimately show ?thesis by (simp add: denied_result_def)
qed

theorem scrape_page_denied_witness:
  "can_fetch demo_env default_scraper new_world ''http://closed.example/x''
     = (Inr False, \<lparr>trace = [RobotsRead ''http://closed.example/robots.txt''], last_request_time = Map.empty\<rparr>)
   \<and> scrape_page demo_env default_scraper new_world ''http://closed.example/x''
     = (Inr [''content'' \<mapsto> PStr ''Access denied by robots.txt'', ''links'' \<mapsto> PList [],
             ''title'' \<mapsto> PStr ''No Title''],
        \<lparr>trace = [RobotsRead ''http://closed.example/robots.txt''], last_request_time = Map.empty\<rparr>)"
proof -
  have a: "can_fetch demo_env default_scraper new_world ''http://closed.example/x''
     = (Inr False, \<lparr>trace = [RobotsRead ''http://closed.example/robots.txt''], last_request_time = Map.empty\<rparr>)"
    by (simp add: demo_defs can_fetch_def rp_read_def rp_can_fetch_def new_parser_def emit_def Let_def)
  show ?thesis using a scrape_page_denied [OF a] by simp
qed

text \<open>A first attempt that is answered with a status outside 400 to 599 returns the body.\<close>

lemma fetch_page_success:
  assumes "0 < max_retries cfg"
    and "respect_rate_limit env cfg w url = (Inr (), w1)"
    and "requests_get env (trace w1) url (user_agent cfg) (timeout cfg) = Inr r"
    and "status_code r < 400 \<or> 600 \<le> status_code r"
  shows "fetch_page env cfg w url = (Inr (Some (resp_text r)), emit (HttpGet url) w1)"
proof -
  have "[0..<nat (max_retries cfg)] = 0 # [1..<nat (max_retries cfg)]"
    using assms(1) by (simp add: upt_conv_Cons)
  moreover have "fetch_try env cfg w url = (Inr (resp_text r), emit (HttpGet url) w1)"
    using assms(2-4) by (auto simp: fetch_try_def raise_for_status_def Let_def)
  ultimately show ?thesis by (simp add: fetch_page_def)
qed

text \<open>
  C10. For a URL that robots allows, without rendering, when the first GET is answered
  with a success status and an empty body, \<open>fetch_page\<close> returns the empty string and
  \<open>scrape_page\<close> returns the failure sentinel \<open>Failed to fetch {url}\<close>, as it does for a
  fetch that returned \<open>None\<close>; nothing is extracted.
\<close>

theorem scrape_page_empty_body:
  assumes "can_fetch env cfg w url = (Inr True, w1)"
    and "\<not> enable_js cfg"
    and "0 < max_retries cfg"
    and "respect_rate_limit env cfg w1 url = (Inr (), w2)"
    and "requests_get env (trace w2) url (user_agent cfg) (timeout cfg) = Inr r"
    and "status_code r < 400 \<or> 600 \<le> status_code r"
    and "resp_text r = []"
  shows "fetch_page env cfg w1 url = (Inr (Some []), emit (HttpGet url) w2)
         \<and> scrape_page env cfg w url =
             (Inr [''content'' \<mapsto> PStr (''Failed to fetch '' @ url), ''links'' \<mapsto> PList [],
                   ''title'' \<mapsto> PStr ''No Title''], emit (HttpGet url) w2)"
proof -
  have f: "fetch_page env cfg w1 url = (Inr (Some []), emit (HttpGet url) w2)"
    using fetch_page_success [OF assms(3-6)] assms(7) by simp
  then show ?thesis using assms(1,2) by (simp add: scrape_page_def failed_result_def)
qed

text \<open>On either fetch path, \<open>None\<close> and the empty string lead to the same sentinel.\<close>

lemma scrape_page_falsy_markup:
  assumes "can_fetch env cfg w url = (Inr True, w1)"
    and "(if enable_js cfg then fetch_js_page env cfg w1 url else fetch_page env cfg w1 url)
           = (Inr html, w2)"
    and "html = None \<or> html = Some []"
  shows "scrape_page env cfg w url = (Inr (failed_result url), w2)"
  using assms by (auto simp: scrape_page_def)

theorem scrape_page_empty_body_witness:
  "scrape_page demo_env default_scraper new_world ''http://empty.example/''
     = (Inr [''content'' \<mapsto> PStr ''Failed to fetch http://empty.example/'', ''links'' \<mapsto> PList [],
             ''title'' \<mapsto> PStr ''No Title''],
        \<lparr>trace = [RobotsRead ''http://empty.example/robots.txt'', ReadClock, ReadClock,
                  HttpGet ''http://empty.example/''],
          last_request_time = [''empty.example'' \<mapsto> 1 / 10]\<rparr>)"
proof -
  let ?u = "''http://empty.example/''"
  let ?w1 = "\<lparr>trace = [RobotsRead ''http://empty.example/robots.txt''], last_request_time = Map.empty\<rparr>"
  let ?w2 = "\<lparr>trace = [RobotsRead ''http://empty.example/robots.txt'', ReadClock, ReadClock],
              last_request_time = [''empty.example'' \<mapsto> 1 / 10]\<rparr>"
  let ?r = "\<lparr>status_code = 200, resp_text = []\<rparr>"
  have a: "can_fetch demo_env default_scraper new_world ?u = (Inr True, ?w1)"
    by (simp add: demo_defs can_fetch_def rp_read_def rp_can_fetch_def new_parser_def emit_def Let_def)
  have b: "\<not> enable_js default_scraper" by (simp add: demo_defs)
  have c: "0 < max_retries default_scraper" by (simp add: demo_defs)
  have d: "respect_rate_limit demo_env default_scraper ?w1 ?u = (Inr (), ?w2)"
    by (simp add: demo_defs respect_rate_limit_def time_time_def emit_def Let_def)
  have e: "requests_get demo_env (trace ?w2) ?u (user_agent default_scraper) (timeout default_scraper) = Inr ?r"
    by (simp add: demo_defs)
  have f: "status_code ?r < 400 \<or> 600 \<le> status_code ?r" by simp
  have g: "resp_text ?r = []" by simp
  show ?thesis
    using scrape_page_empty_body [OF a b c d e f g] by (simp add: emit_def)
qed

section \<open>The content extractor: selection, links, length\<close>

lemmas extract_defs = extract_content_def extract_metadata_def meta_content_def body_text_def
  main_content_def resolved_links_def resolve_link_def find_def find_all_def get_text_def
  py_strip_def py_isspace_def py_split_ws_def

lemmas tree_defs = meta_tree_def links_tree_def main_tree_def anchor_def

text \<open>\<open>find\<close> by tag name returns the first node of that name in document order, when
  one is present.\<close>

lemma find_first_present:
  "find (named nm) soup =
     (if list_ex (named nm) (descendants soup)
      then Some (hd (filter (named nm) (descendants soup))) else None)"
proof (cases "filter (named nm) (descendants soup)")
  case Nil
  then have "\<not> list_ex (named nm) (descendants soup)"
    by (simp add: list_ex_iff filter_empty_conv)
  with Nil show ?thesis by (simp add: find_def find_all_def)
next
  case (Cons x xs)
  then have "x \<in> set (filter (named nm) (descendants soup))" by simp
  then have "list_ex (named nm) (descendants soup)" by (auto simp: list_ex_iff)
  with Cons show ?thesis by (simp add: find_def find_all_def)
qed

lemma main_content_spec: "main_content soup = spec_main_content soup"
  by (simp add: main_content_def spec_main_content_def find_first_present)

lemma spec_main_content_in_document:
  "spec_main_content soup = soup \<or> spec_main_content soup \<in> set (descendants soup)"
proof -
  have "hd (filter (named nm) (descendants soup)) \<in> set (descendants soup)"
    if "list_ex (named nm) (descendants soup)" for nm
  proof -
    from that have "filter (named nm) (descendants soup) \<noteq> []"
      by (auto simp: list_ex_iff filter_empty_conv)
    then have "hd (filter (named nm) (descendants soup)) \<in> set (filter (named nm) (descendants soup))"
      by (rule hd_in_set)
    then show ?thesis by simp
  qed
  then show ?thesis by (auto simp: spec_main_content_def)
qed

text \<open>What a successful extraction returned, read off the code.\<close>

lemma extract_content_Inr:
  assumes "extract_content env cfg html url = Inr r"
  obtains parsed metadata ls where
    "BeautifulSoup env html = Inr parsed"
    "extract_metadata (decompose_all [''script'', ''style'', ''nav'', ''footer'', ''header''] parsed)
       = Inr metadata"
    "resolved_links env url
       (decompose_all [''script'', ''style'', ''nav'', ''footer'', ''header''] parsed) = Inr ls"
    "r = metadata
       (''content'' \<mapsto>
          PStr (let content = body_text
                      (decompose_all [''script'', ''style'', ''nav'', ''footer'', ''header''] parsed);
                    content' = (if summarize_content cfg \<and> length (py_split_ws content) > 100
                                then summarize_text content else content)
                in if content' = [] then ''No main content found.'' else content'),
        ''links'' \<mapsto> PListOfSet (set (take 10 ls)))"
  using assms
  by (auto simp: extract_content_def Let_def split: sum.splits)

text \<open>
  C9. On the document as it stands after the removal of script, style, nav, footer and
  header nodes, the node the extractor selects is the first present of, in priority
  order, a main, an article, a section, a div, and the whole document when none exist.
  The body text is made of the paragraphs within the selected node only: their trimmed
  texts joined by a space and cut at 2400 characters, then summarized when that applies,
  and replaced by \<open>No main content found.\<close> when empty; a selected node without
  paragraphs gives that placeholder whatever other text the document holds.
\<close>

theorem main_content_priority:
  assumes "extract_content env cfg html url = Inr r"
    and "BeautifulSoup env html = Inr parsed"
    and "soup = decompose_all [''script'', ''style'', ''nav'', ''footer'', ''header''] parsed"
    and "paragraphs = filter (named ''p'') (descendants (spec_main_content soup))"
    and "body = take 2400 (py_join '' '' (map (\<lambda>p. py_strip (get_text p)) paragraphs))"
  shows "main_content soup = spec_main_content soup
         \<and> r ''content'' =
             Some (PStr (let content' = (if summarize_content cfg \<and> length (py_split_ws body) > 100
                                         then summarize_text body else body)
                         in if content' = [] then ''No main content found.'' else content'))
         \<and> (paragraphs = [] \<longrightarrow> r ''content'' = Some (PStr ''No main content found.''))"
proof -
  have b: "body_text soup = body"
    using assms(4,5) by (simp add: body_text_def find_all_def main_content_spec)
  from assms(1) obtain parsed' metadata ls where
    p: "BeautifulSoup env html = Inr parsed'" and
    r: "r = metadata
       (''content'' \<mapsto>
          PStr (let content = body_text
                      (decompose_all [''script'', ''style'', ''nav'', ''footer'', ''header''] parsed');
                    content' = (if summarize_content cfg \<and> length (py_split_ws content) > 100
                                then summarize_text content else content)
                in if content' = [] then ''No main content found.'' else content'),
        ''links'' \<mapsto> PListOfSet (set (take 10 ls)))"
    by (rule extract_content_Inr)
  from p assms(2) have "parsed' = parsed" by simp
  with r b assms(3) have c: "r ''content'' =
             Some (PStr (let content' = (if summarize_content cfg \<and> length (py_split_ws body) > 100
                                         then summarize_text body else body)
                         in if content' = [] then ''No main content found.'' else content'))"
    by (simp add: Let_def)
  have "body = []" if "paragraphs = []"
    using that assms(5) by simp
  then have "paragraphs = [] \<longrightarrow> r ''content'' = Some (PStr ''No main content found.'')"
    using c by (auto simp: Let_def py_split_ws_def)
  with c show ?thesis by (simp add: main_content_spec)
qed

text \<open>The document with a div before its main element: the paragraph of the main
  element is the content, trimmed.\<close>

lemma extract_main_example:
  "extract_content demo_env default_scraper main_markup ''http://main.example/'' =
     Inr [''title'' \<mapsto> PStr ''No Title'', ''description'' \<mapsto> PStr ''No Description'',
          ''keywords'' \<mapsto> PStr ''No Keywords'', ''content'' \<mapsto> PStr ''in main'',
          ''links'' \<mapsto> PListOfSet {}]"
  by (simp add: demo_defs extract_defs tree_defs summarize_text_def Let_def)


theorem main_content_priority_witness:
  "spec_main_content main_tree = Tag ''main'' [] [Tag ''p'' [] [NavigableString '' in main ''], NavigableString ''more'']
   \<and> main_content main_tree = spec_main_content main_tree
   \<and> (case extract_content demo_env default_scraper main_markup ''http://main.example/'' of
         Inl e \<Rightarrow> None | Inr r \<Rightarrow> r ''content'') = Some (PStr ''in main'')"
proof -
  let ?r = "[''title'' \<mapsto> PStr ''No Title'', ''description'' \<mapsto> PStr ''No Description'',
          ''keywords'' \<mapsto> PStr ''No Keywords'', ''content'' \<mapsto> PStr ''in main'',
          ''links'' \<mapsto> PListOfSet {}]"
  let ?m = "Tag ''main'' [] [Tag ''p'' [] [NavigableString '' in main ''], NavigableString ''more'']"
  have a: "extract_content demo_env default_scraper main_markup ''http://main.example/'' = Inr ?r"
    by (rule extract_main_example)
  have b: "BeautifulSoup demo_env main_markup = Inr main_tree"
    by (simp add: demo_defs)
  have c: "main_tree = decompose_all [''script'', ''style'', ''nav'', ''footer'', ''header''] main_tree"
    by (simp add: tree_defs)
  have s: "spec_main_content main_tree = ?m"
    by (simp add: spec_main_content_def tree_defs)
  have d: "[Tag ''p'' [] [NavigableString '' in main '']]
           = filter (named ''p'') (descendants (spec_main_content main_tree))"
    by (simp add: s)
  have e: "''in main'' = take 2400 (py_join '' ''
             (map (\<lambda>p. py_strip (get_text p)) [Tag ''p'' [] [NavigableString '' in main '']]))"
    by (simp add: get_text_def py_strip_def py_isspace_def)
  show ?thesis
    using main_content_priority [OF a b c d e] s a by simp
qed

text \<open>A comprehension that did not raise has mapped every element.\<close>

lemma map_err_Inr:
  "map_err f xs = Inr ys \<Longrightarrow> list_all2 (\<lambda>x y. f x = Inr y) xs ys"
  by (induction xs arbitrary: ys) (auto split: sum.splits)

lemma card_take_10: "card (set (take 10 ls)) \<le> 10"
proof -
  have "card (set (take 10 ls)) \<le> length (take 10 ls)" by (rule card_length)
  then show ?thesis by simp
qed

lemma card_take_10_eq:
  "card (set (take 10 ls)) = 10 \<longleftrightarrow> 10 \<le> length ls \<and> distinct (take 10 ls)"
proof
  assume c: "card (set (take 10 ls)) = 10"
  have "card (set (take 10 ls)) \<le> length (take 10 ls)" by (rule card_length)
  with c have l: "length (take 10 ls) = 10" by simp
  then have "10 \<le> length ls" by simp
  moreover have "distinct (take 10 ls)" using c l by (simp add: card_distinct)
  ultimately show "10 \<le> length ls \<and> distinct (take 10 ls)" by simp
next
  assume "10 \<le> length ls \<and> distinct (take 10 ls)"
  then show "card (set (take 10 ls)) = 10" by (simp add: distinct_card)
qed

text \<open>
  C2, as the code has it. Every anchor that carries an href (in the document after the
  removal of script, style, nav, footer and header nodes) is resolved against the base
  URL, in document order; the first 10 resolved values are kept and then deduplicated.
  The links are the set of these first 10 values: equal values among them give one
  entry, there are at most 10 entries, and there are exactly 10 only when the document
  has at least 10 such anchors and the first 10 resolve to pairwise distinct URLs.
\<close>

theorem links_first_ten_then_dedup:
  assumes "extract_content env cfg html url = Inr r"
  shows "\<exists>parsed ls.
           BeautifulSoup env html = Inr parsed
           \<and> list_all2 (\<lambda>a l. \<exists>href. get_attr a ''href'' = Inr href \<and> urljoin env url href = Inr l)
                (find_all (named_with_attr ''a'' ''href'')
                   (decompose_all [''script'', ''style'', ''nav'', ''footer'', ''header''] parsed))
                ls
           \<and> r ''links'' = Some (PListOfSet (set (take 10 ls)))
           \<and> card (set (take 10 ls)) \<le> 10
           \<and> (card (set (take 10 ls)) = 10 \<longleftrightarrow> 10 \<le> length ls \<and> distinct (take 10 ls))"
proof -
  let ?soup = "\<lambda>parsed. decompose_all [''script'', ''style'', ''nav'', ''footer'', ''header''] parsed"
  from assms obtain parsed metadata ls where
    p: "BeautifulSoup env html = Inr parsed" and
    l: "resolved_links env url (?soup parsed) = Inr ls" and
    r: "r = metadata
       (''content'' \<mapsto>
          PStr (let content = body_text (?soup parsed);
                    content' = (if summarize_content cfg \<and> length (py_split_ws content) > 100
                                then summarize_text content else content)
                in if content' = [] then ''No main content found.'' else content'),
        ''links'' \<mapsto> PListOfSet (set (take 10 ls)))"
    by (rule extract_content_Inr)
  from l have "list_all2 (\<lambda>a l. resolve_link env url a = Inr l)
                 (find_all (named_with_attr ''a'' ''href'') (?soup parsed)) ls"
    unfolding resolved_links_def by (rule map_err_Inr)
  then have "list_all2 (\<lambda>a l. \<exists>href. get_attr a ''href'' = Inr href \<and> urljoin env url href = Inr l)
               (find_all (named_with_attr ''a'' ''href'') (?soup parsed)) ls"
    by (rule list_all2_mono) (auto simp: resolve_link_def split: sum.splits)
  moreover from r have "r ''links'' = Some (PListOfSet (set (take 10 ls)))" by simp
  ultimately show ?thesis using p card_take_10 card_take_10_eq by blast
qed

lemma extract_links_example:
  "extract_content demo_env default_scraper links_markup ''http://links.example/'' =
     Inr [''title'' \<mapsto> PStr ''No Title'', ''description'' \<mapsto> PStr ''No Description'',
          ''keywords'' \<mapsto> PStr ''No Keywords'', ''content'' \<mapsto> PStr ''No main content found.'',
          ''links'' \<mapsto> PListOfSet {''http://x/0''}]"
  by (simp add: demo_defs extract_defs tree_defs summarize_text_def Let_def)

theorem links_first_ten_then_dedup_witness:
  "extract_content demo_env default_scraper links_markup ''http://links.example/'' =
     Inr [''title'' \<mapsto> PStr ''No Title'', ''description'' \<mapsto> PStr ''No Description'',
          ''keywords'' \<mapsto> PStr ''No Keywords'', ''content'' \<mapsto> PStr ''No main content found.'',
          ''links'' \<mapsto> PListOfSet {''http://x/0''}]
   \<and> card {''http://x/0''} \<le> (10 :: nat)"
proof -
  let ?r = "[''title'' \<mapsto> PStr ''No Title'', ''description'' \<mapsto> PStr ''No Description'',
          ''keywords'' \<mapsto> PStr ''No Keywords'', ''content'' \<mapsto> PStr ''No main content found.'',
          ''links'' \<mapsto> PListOfSet {''http://x/0''}]"
  have a: "extract_content demo_env default_scraper links_markup ''http://links.example/'' = Inr ?r"
    by (rule extract_links_example)
  from links_first_ten_then_dedup [OF a] obtain ls where
    "?r ''links'' = Some (PListOfSet (set (take 10 ls)))" "card (set (take 10 ls)) \<le> 10"
    by blast
  then have "card {''http://x/0''} \<le> (10 :: nat)" by simp
  then show ?thesis using a by simp
qed

text \<open>
  C2 as stated fails: the document of ten anchors to one address followed by nine
  anchors to nine other addresses holds 10 distinct resolved link URLs, and the links
  returned hold one value.
\<close>

theorem links_cap_counterexample:
  "BeautifulSoup demo_env links_markup = Inr links_tree
   \<and> resolved_links demo_env ''http://links.example/''
       (decompose_all [''script'', ''style'', ''nav'', ''footer'', ''header''] links_tree)
     = Inr [''http://x/0'', ''http://x/0'', ''http://x/0'', ''http://x/0'', ''http://x/0'',
            ''http://x/0'', ''http://x/0'', ''http://x/0'', ''http://x/0'', ''http://x/0'',
            ''http://x/1'', ''http://x/2'', ''http://x/3'', ''http://x/4'', ''http://x/5'',
            ''http://x/6'', ''http://x/7'', ''http://x/8'', ''http://x/9'']
   \<and> card {''http://x/0'', ''http://x/1'', ''http://x/2'', ''http://x/3'', ''http://x/4'',
            ''http://x/5'', ''http://x/6'', ''http://x/7'', ''http://x/8'', ''http://x/9''} = 10
   \<and> extract_content demo_env default_scraper links_markup ''http://links.example/'' =
       Inr [''title'' \<mapsto> PStr ''No Title'', ''description'' \<mapsto> PStr ''No Description'',
            ''keywords'' \<mapsto> PStr ''No Keywords'', ''content'' \<mapsto> PStr ''No main content found.'',
            ''links'' \<mapsto> PListOfSet {''http://x/0''}]
   \<and> card {''http://x/0''} = 1"
  by (simp add: extract_links_example)
    (simp add: demo_defs tree_defs resolved_links_def resolve_link_def find_all_def)

text \<open>The slice \<open>[:2400]\<close> bounds the body text before summarization.\<close>

lemma body_text_length: "length (body_text soup) \<le> 2400"
  by (simp add: body_text_def)

lemma extract_content_length:
  assumes "extract_content env cfg html url = Inr r"
  shows "\<exists>c. r ''content'' = Some (PStr c)
           \<and> (length c \<le> 2400
              \<or> (summarize_content cfg
                 \<and> (\<exists>t. length t \<le> 2400 \<and> 100 < length (py_split_ws t)
                         \<and> 3 < length (py_split ''. '' t) \<and> c = summarize_text t)))"
proof -
  let ?soup = "\<lambda>parsed. decompose_all [''script'', ''style'', ''nav'', ''footer'', ''header''] parsed"
  from assms obtain parsed metadata ls where
    r: "r = metadata
       (''content'' \<mapsto>
          PStr (let content = body_text (?soup parsed);
                    content' = (if summarize_content cfg \<and> length (py_split_ws content) > 100
                                then summarize_text content else content)
                in if content' = [] then ''No main content found.'' else content'),
        ''links'' \<mapsto> PListOfSet (set (take 10 ls)))"
    by (rule extract_content_Inr)
  let ?t = "body_text (?soup parsed)"
  have len: "length ?t \<le> 2400" by (rule body_text_length)
  show ?thesis
  proof (cases "summarize_content cfg \<and> 100 < length (py_split_ws ?t) \<and> 3 < length (py_split ''. '' ?t)")
    case True
    then have ne: "summarize_text ?t \<noteq> []" by (simp add: summarize_text_def)
    from r True ne have "r ''content'' = Some (PStr (summarize_text ?t))"
      by (simp add: Let_def)
    with True len show ?thesis by blast
  next
    case False
    then have "(if summarize_content cfg \<and> length (py_split_ws ?t) > 100
                then summarize_text ?t else ?t) = ?t"
      by (auto simp: summarize_text_def)
    with r have "r ''content'' = Some (PStr (if ?t = [] then ''No main content found.'' else ?t))"
      by (simp add: Let_def)
    moreover have "length (if ?t = [] then ''No main content found.'' else ?t) \<le> 2400"
      using len by simp
    ultimately show ?thesis by blast
  qed
qed

text \<open>
  C1, as the code has it. Every result of \<open>scrape_page\<close> has a string content, and that
  content has at most 2400 characters unless it is the failure sentinel, which is
  \<open>Failed to fetch\<close> followed by the whole URL, or the summary of a text that the
  summarization pass rewrote (summarization enabled, a text of at most 2400 characters
  with more than 100 words and more than 3 segments), about whose length nothing is
  stated here.
\<close>

theorem content_length_bound:
  assumes "fst (scrape_page env cfg w url) = Inr r"
  shows "\<exists>c. r ''content'' = Some (PStr c)
           \<and> (length c \<le> 2400
              \<or> c = ''Failed to fetch '' @ url
              \<or> (summarize_content cfg
                 \<and> (\<exists>t. length t \<le> 2400 \<and> 100 < length (py_split_ws t)
                         \<and> 3 < length (py_split ''. '' t) \<and> c = summarize_text t)))"
proof -
  consider "r = denied_result" | "r = failed_result url"
    | html where "extract_content env cfg html url = Inr r"
    using assms
    by (auto simp: scrape_page_def split: sum.splits prod.splits if_splits option.splits)
  then show ?thesis
  proof cases
    case 1
    then show ?thesis by (simp add: denied_result_def)
  next
    case 2
    then show ?thesis by (simp add: failed_result_def)
  next
    case 3
    then show ?thesis using extract_content_length by blast
  qed
qed

lemma scrape_main_example:
  "fst (scrape_page demo_env default_scraper new_world ''http://main.example/'') =
     Inr [''title'' \<mapsto> PStr ''No Title'', ''description'' \<mapsto> PStr ''No Description'',
          ''keywords'' \<mapsto> PStr ''No Keywords'', ''content'' \<mapsto> PStr ''in main'',
          ''links'' \<mapsto> PListOfSet {}]"
proof -
  have "fst (scrape_page demo_env default_scraper new_world ''http://main.example/'')
        = extract_content demo_env default_scraper main_markup ''http://main.example/''"
    by (simp add: demo_defs scraper_defs Let_def upt_rec)
  then show ?thesis by (simp add: extract_main_example)
qed

theorem content_length_bound_witness:
  "fst (scrape_page demo_env default_scraper new_world ''http://main.example/'') =
     Inr [''title'' \<mapsto> PStr ''No Title'', ''description'' \<mapsto> PStr ''No Description'',
          ''keywords'' \<mapsto> PStr ''No Keywords'', ''content'' \<mapsto> PStr ''in main'',
          ''links'' \<mapsto> PListOfSet {}]
   \<and> length ''in main'' \<le> 2400"
  using content_length_bound [OF scrape_main_example] scrape_main_example by simp

text \<open>
  C1 as stated fails on the failure sentinel: for a URL of 2420 characters whose fetch
  fails, the content has 2436 characters.
\<close>

theorem content_length_counterexample:
  "fst (scrape_page demo_env default_scraper new_world long_url) =
     Inr [''content'' \<mapsto> PStr (''Failed to fetch '' @ long_url), ''links'' \<mapsto> PList [],
          ''title'' \<mapsto> PStr ''No Title'']
   \<and> length (''Failed to fetch '' @ long_url) = 2436"
  by (simp add: demo_defs scraper_defs failed_result_def Let_def upt_rec long_url_def)

text \<open>
  C4. \<open>scrape_multiple_pages\<close> on two URLs, the first serving a document whose
  description meta tag has no content attribute, the second a well-formed document: the
  KeyError of \<open>extract_metadata\<close> leaves \<open>scrape_multiple_pages\<close>, no mapping is returned,
  and the second URL is never requested.
\<close>

theorem scrape_multiple_pages_raises:
  "scrape_multiple_pages demo_env default_scraper new_world
     [''http://meta.example/'', ''http://main.example/''] =
     (Inl (KeyError ''content''),
      \<lparr>trace = [RobotsRead ''http://meta.example/robots.txt'', ReadClock, ReadClock,
                HttpGet ''http://meta.example/''],
        last_request_time = [''meta.example'' \<mapsto> 1 / 10]\<rparr>)"
  by (simp add: scrape_multiple_pages_def demo_defs scraper_defs extract_defs tree_defs Let_def upt_rec)

text \<open>Alone, the second URL is scraped without error.\<close>

lemma scrape_main_alone:
  "fst (scrape_multiple_pages demo_env default_scraper new_world [''http://main.example/'']) =
     Inr [''http://main.example/'' \<mapsto>
            [''title'' \<mapsto> PStr ''No Title'', ''description'' \<mapsto> PStr ''No Description'',
             ''keywords'' \<mapsto> PStr ''No Keywords'', ''content'' \<mapsto> PStr ''in main'',
             ''links'' \<mapsto> PListOfSet {}]]"
  by (simp add: scrape_multiple_pages_def demo_defs scraper_defs extract_defs tree_defs
      summarize_text_def Let_def upt_rec)

section \<open>Retry loop and rate limiter\<close>

text \<open>For a URL that parses, the rate limiter returns without raising, and it adds no
  GET and no backoff to the trace.\<close>

lemma respect_rate_limit_ok:
  assumes "urlparse env url = Inr p"
  shows "\<exists>w1 es. respect_rate_limit env cfg w url = (Inr (), w1)
           \<and> trace w1 = trace w @ es \<and> filter fetch_event es = []"
  using assms
  by (auto simp: respect_rate_limit_def time_time_def emit_def Let_def split: option.splits)

text \<open>One attempt against a server that always fails: one GET, and a
  \<open>RequestException\<close>.\<close>

lemma fetch_try_fails:
  assumes "urlparse env url = Inr p"
    and "\<forall>h. case requests_get env h url (user_agent cfg) (timeout cfg) of
               Inl e \<Rightarrow> is_RequestException e
             | Inr r \<Rightarrow> 400 \<le> status_code r \<and> status_code r < 600"
  shows "\<exists>e w1 es. fetch_try env cfg w url = (Inl e, w1) \<and> is_RequestException e
           \<and> trace w1 = trace w @ es \<and> filter fetch_event es = [HttpGet url]"
proof -
  from respect_rate_limit_ok [OF assms(1)] obtain w1 es where
    r: "respect_rate_limit env cfg w url = (Inr (), w1)" and
    t: "trace w1 = trace w @ es" and f: "filter fetch_event es = []"
    by blast
  let ?w2 = "emit (HttpGet url) w1"
  have t2: "trace ?w2 = trace w @ (es @ [HttpGet url])" using t by (simp add: emit_def)
  have f2: "filter fetch_event (es @ [HttpGet url]) = [HttpGet url]" using f by simp
  from assms(2) have g: "case requests_get env (trace w1) url (user_agent cfg) (timeout cfg) of
               Inl e \<Rightarrow> is_RequestException e
             | Inr r \<Rightarrow> 400 \<le> status_code r \<and> status_code r < 600" by blast
  show ?thesis
  proof (cases "requests_get env (trace w1) url (user_agent cfg) (timeout cfg)")
    case (Inl e)
    with g have "is_RequestException e" by simp
    moreover from r Inl have "fetch_try env cfg w url = (Inl e, ?w2)"
      by (simp add: fetch_try_def Let_def)
    ultimately show ?thesis using t2 f2 by blast
  next
    case (Inr resp)
    with g have "400 \<le> status_code resp \<and> status_code resp < 600" by simp
    with r Inr have "fetch_try env cfg w url = (Inl (RequestException ''HTTPError''), ?w2)"
      by (simp add: fetch_try_def raise_for_status_def Let_def)
    then show ?thesis using t2 f2 by force
  qed
qed

text \<open>The loop against such a server: every attempt is one GET followed by one backoff
  sleep of \<open>2 ** attempt\<close> seconds, and the loop ends with \<open>None\<close>.\<close>

lemma fetch_attempts_all_fail:
  assumes "urlparse env url = Inr p"
    and "\<forall>h. case requests_get env h url (user_agent cfg) (timeout cfg) of
               Inl e \<Rightarrow> is_RequestException e
             | Inr r \<Rightarrow> 400 \<le> status_code r \<and> status_code r < 600"
  shows "\<exists>w' es. fetch_attempts env cfg url attempts w = (Inr None, w')
           \<and> trace w' = trace w @ es
           \<and> filter fetch_event es
               = concat (map (\<lambda>attempt. [HttpGet url, BackoffSleep (2 ^ attempt)]) attempts)"
proof (induction attempts arbitrary: w)
  case Nil
  then show ?case by simp
next
  case (Cons attempt rest)
  from fetch_try_fails [OF assms] obtain e w1 es where
    t: "fetch_try env cfg w url = (Inl e, w1)" and e: "is_RequestException e" and
    tr: "trace w1 = trace w @ es" and f: "filter fetch_event es = [HttpGet url]"
    by blast
  let ?w2 = "emit (BackoffSleep (2 ^ attempt)) w1"
  from Cons.IH [of ?w2] obtain w' es' where
    r: "fetch_attempts env cfg url rest ?w2 = (Inr None, w')" and
    tr': "trace w' = trace ?w2 @ es'" and
    f': "filter fetch_event es'
           = concat (map (\<lambda>attempt. [HttpGet url, BackoffSleep (2 ^ attempt)]) rest)"
    by blast
  have "fetch_attempts env cfg url (attempt # rest) w = (Inr None, w')"
    using t e r by simp
  moreover have "trace w' = trace w @ (es @ [BackoffSleep (2 ^ attempt)] @ es')"
    using tr tr' by (simp add: emit_def)
  moreover have "filter fetch_event (es @ [BackoffSleep (2 ^ attempt)] @ es')
      = concat (map (\<lambda>attempt. [HttpGet url, BackoffSleep (2 ^ attempt)]) (attempt # rest))"
    using f f' by simp
  ultimately show ?case by blast
qed

text \<open>
  C3, as the code has it. With \<open>max_retries = 3\<close>, for a URL that parses and on which
  every GET raises a \<open>RequestException\<close> or is answered with a status from 400 to 599,
  \<open>fetch_page\<close> returns \<open>None\<close> after exactly 3 GETs, each followed by its backoff sleep:
  1 second after the first, 2 seconds after the second, and 4 seconds after the third
  and last.
\<close>

theorem fetch_page_all_fail:
  assumes "max_retries cfg = 3"
    and "urlparse env url = Inr p"
    and "\<forall>h. case requests_get env h url (user_agent cfg) (timeout cfg) of
               Inl e \<Rightarrow> is_RequestException e
             | Inr r \<Rightarrow> 400 \<le> status_code r \<and> status_code r < 600"
  shows "\<exists>w' es. fetch_page env cfg w url = (Inr None, w')
           \<and> trace w' = trace w @ es
           \<and> filter fetch_event es
               = [HttpGet url, BackoffSleep 1, HttpGet url, BackoffSleep 2,
                  HttpGet url, BackoffSleep 4]"
proof -
  have "[0..<nat (max_retries cfg)] = [0, 1, 2]"
    using assms(1) by (simp add: upt_rec)
  then have "fetch_page env cfg w url = fetch_attempts env cfg url [0, 1, 2] w"
    by (simp add: fetch_page_def)
  moreover from fetch_attempts_all_fail [OF assms(2,3), of "[0, 1, 2]" w]
  obtain w' es where "fetch_attempts env cfg url [0, 1, 2] w = (Inr None, w')"
    "trace w' = trace w @ es"
    "filter fetch_event es
       = [HttpGet url, BackoffSleep 1, HttpGet url, BackoffSleep 2, HttpGet url, BackoffSleep 4]"
    by auto
  ultimately show ?thesis by auto
qed

text \<open>The whole trace against the host that always answers 500.\<close>

lemma fetch_down_example:
  "fetch_page demo_env default_scraper new_world ''http://down.example/'' =
     (Inr None,
      \<lparr>trace = [ReadClock, ReadClock, HttpGet ''http://down.example/'', BackoffSleep 1,
                ReadClock, ReadClock, HttpGet ''http://down.example/'', BackoffSleep 2,
                ReadClock, ReadClock, HttpGet ''http://down.example/'', BackoffSleep 4],
        last_request_time = [''down.example'' \<mapsto> 32 / 10]\<rparr>)"
  by (simp add: demo_defs scraper_defs Let_def upt_rec)

theorem fetch_page_all_fail_witness:
  "fetch_page demo_env default_scraper new_world ''http://down.example/'' =
     (Inr None,
      \<lparr>trace = [ReadClock, ReadClock, HttpGet ''http://down.example/'', BackoffSleep 1,
                ReadClock, ReadClock, HttpGet ''http://down.example/'', BackoffSleep 2,
                ReadClock, ReadClock, HttpGet ''http://down.example/'', BackoffSleep 4],
        last_request_time = [''down.example'' \<mapsto> 32 / 10]\<rparr>)
   \<and> filter fetch_event
        [ReadClock, ReadClock, HttpGet ''http://down.example/'', BackoffSleep 1,
         ReadClock, ReadClock, HttpGet ''http://down.example/'', BackoffSleep 2,
         ReadClock, ReadClock, HttpGet ''http://down.example/'', BackoffSleep 4]
      = [HttpGet ''http://down.example/'', BackoffSleep 1, HttpGet ''http://down.example/'',
         BackoffSleep 2, HttpGet ''http://down.example/'', BackoffSleep 4]"
proof -
  have a: "max_retries default_scraper = 3" by (simp add: demo_defs)
  have b: "urlparse demo_env ''http://down.example/''
           = Inr \<lparr>scheme = ''http'', netloc = ''down.example''\<rparr>"
    by (simp add: demo_defs Let_def)
  have c: "\<forall>h. case requests_get demo_env h ''http://down.example/''
                      (user_agent default_scraper) (timeout default_scraper) of
               Inl e \<Rightarrow> is_RequestException e
             | Inr r \<Rightarrow> 400 \<le> status_code r \<and> status_code r < 600"
    by (simp add: demo_defs)
  from fetch_page_all_fail [OF a b c, of new_world] obtain w' es where
    "fetch_page demo_env default_scraper new_world ''http://down.example/'' = (Inr None, w')"
    "trace w' = trace new_world @ es"
    "filter fetch_event es
       = [HttpGet ''http://down.example/'', BackoffSleep 1, HttpGet ''http://down.example/'',
          BackoffSleep 2, HttpGet ''http://down.example/'', BackoffSleep 4]"
    by blast
  then show ?thesis using fetch_down_example by (simp add: new_world_def)
qed

text \<open>
  C3 as stated fails: with 3 retries against a server that always answers 500, the last
  event of \<open>fetch_page\<close> is a backoff sleep of 4 seconds, after the final attempt.
\<close>

theorem backoff_after_last_attempt_counterexample:
  "fetch_page demo_env default_scraper new_world ''http://down.example/'' =
     (Inr None,
      \<lparr>trace = [ReadClock, ReadClock, HttpGet ''http://down.example/'', BackoffSleep 1,
                ReadClock, ReadClock, HttpGet ''http://down.example/'', BackoffSleep 2,
                ReadClock, ReadClock, HttpGet ''http://down.example/'', BackoffSleep 4],
        last_request_time = [''down.example'' \<mapsto> 32 / 10]\<rparr>)
   \<and> max_retries default_scraper = 3
   \<and> last (trace (snd (fetch_page demo_env default_scraper new_world ''http://down.example/'')))
       = BackoffSleep 4"
  by (simp add: fetch_down_example) (simp add: demo_defs)






section \<open>The summarizer after the slice\<close>

text \<open>Splitting a text that begins with \<open>n\<close> times the word \<open>w\<close> and a space.\<close>

lemma py_split_words:
  "py_split ''. '' (concat (replicate n ''w '') @ r)
     = (case py_split ''. '' r of [] \<Rightarrow> [] | x # xs \<Rightarrow> (concat (replicate n ''w '') @ x) # xs)"
proof (induction n)
  case 0
  then show ?case by (simp split: list.splits)
next
  case (Suc n)
  then show ?case using py_split_not_Nil [of "''. ''" r] by (simp split: list.splits)
qed

lemma split_ws_words:
  "length (split_ws_from [] (concat (replicate n ''w '') @ r)) = n + length (split_ws_from [] r)"
  by (induction n) (simp_all add: py_isspace_def)

lemma long_text_segments:
  "py_split ''. '' (''a. b. '' @ concat (replicate 1196 ''w '') @ ''. '')
     = [''a'', ''b'', concat (replicate 1196 ''w ''), []]"
  by (simp add: py_split_words)

lemma length_words: "length (concat (replicate n ''w '')) = 2 * n"
  by (induction n) simp_all

text \<open>A text of 2400 characters and 1199 words that ends in the third \<open>". "\<close>: its
  summary drops these two characters and appends three.\<close>

lemma summary_of_full_text:
  "length (''a. b. '' @ concat (replicate 1196 ''w '') @ ''. '') = 2400
   \<and> 100 < length (py_split_ws (''a. b. '' @ concat (replicate 1196 ''w '') @ ''. ''))
   \<and> length (summarize_text (''a. b. '' @ concat (replicate 1196 ''w '') @ ''. '')) = 2401"
proof -
  have w: "length (py_split_ws (''a. b. '' @ concat (replicate 1196 ''w '') @ ''. '')) = 1199"
    by (simp add: py_split_ws_def py_isspace_def split_ws_words)
  have s: "summarize_text (''a. b. '' @ concat (replicate 1196 ''w '') @ ''. '')
           = ''a. b. '' @ concat (replicate 1196 ''w '') @ ''...''"
    unfolding summarize_text_def long_text_segments by simp
  show ?thesis unfolding s w by (simp add: length_words)
qed


text \<open>\<open>strip\<close> leaves a text alone that neither begins nor ends with whitespace.\<close>

lemma py_strip_unchanged:
  assumes "\<not> py_isspace a" "\<not> py_isspace b"
  shows "py_strip (a # xs @ [b]) = a # xs @ [b]"
  using assms by (simp add: py_strip_def)

lemma body_text_full_tree:
  "body_text full_tree = ''a. b. '' @ concat (replicate 1196 ''w '') @ ''. ''"
proof -
  have m: "main_content full_tree =
             Tag ''main'' []
               [Tag ''p'' [] [NavigableString (''a. b. '' @ concat (replicate 1196 ''w '') @ ''.'')],
                Tag ''p'' [] [NavigableString ''z'']]"
    by (simp add: main_content_def find_def find_all_def full_tree_def)
  have "py_strip (CHR ''a'' # (''. b. '' @ concat (replicate 1196 ''w '')) @ [CHR ''.''])
        = CHR ''a'' # (''. b. '' @ concat (replicate 1196 ''w '')) @ [CHR ''.'']"
    by (rule py_strip_unchanged) (simp_all add: py_isspace_def)
  then have p1: "py_strip (''a. b. '' @ concat (replicate 1196 ''w '') @ ''.'')
        = ''a. b. '' @ concat (replicate 1196 ''w '') @ ''.''"
    by simp
  have p2: "py_strip ''z'' = ''z''" by (simp add: py_strip_def py_isspace_def)
  have "body_text full_tree
        = take 2400 ((''a. b. '' @ concat (replicate 1196 ''w '') @ ''.'') @ '' '' @ ''z'')"
    unfolding body_text_def m Let_def by (simp add: find_all_def get_text_def p1 [simplified] p2)
  also have "\<dots> = ''a. b. '' @ concat (replicate 1196 ''w '') @ ''. ''"
    by (simp add: length_words)
  finally show ?thesis .
qed

text \<open>
  With summarization enabled, the document of two paragraphs whose joined text is cut
  by the slice right behind \<open>". "\<close> is extracted with a content of 2401 characters.
\<close>

lemma extract_content_2401:
  assumes "BeautifulSoup env html = Inr full_tree" and "summarize_content cfg"
  shows "\<exists>r c. extract_content env cfg html url = Inr r
           \<and> r ''content'' = Some (PStr c) \<and> length c = 2401"
proof -
  have d: "decompose_all [''script'', ''style'', ''nav'', ''footer'', ''header''] full_tree = full_tree"
    by (simp add: full_tree_def)
  have m: "extract_metadata full_tree =
             Inr [''title'' \<mapsto> PStr ''No Title'', ''description'' \<mapsto> PStr ''No Description'',
                  ''keywords'' \<mapsto> PStr ''No Keywords'']"
    by (simp add: extract_metadata_def meta_content_def find_def find_all_def full_tree_def)
  have l: "resolved_links env url full_tree = Inr []"
    by (simp add: resolved_links_def find_all_def full_tree_def)
  from summary_of_full_text have
    w: "100 < length (py_split_ws (body_text full_tree))" and
    s: "length (summarize_text (body_text full_tree)) = 2401"
    by (simp_all only: body_text_full_tree)
  from s have ne: "summarize_text (body_text full_tree) \<noteq> []" by auto
  have "extract_content env cfg html url =
          Inr [''title'' \<mapsto> PStr ''No Title'', ''description'' \<mapsto> PStr ''No Description'',
               ''keywords'' \<mapsto> PStr ''No Keywords'',
               ''content'' \<mapsto> PStr (summarize_text (body_text full_tree)),
               ''links'' \<mapsto> PListOfSet {}]"
    using assms w ne by (simp add: extract_content_def d m l Let_def)
  then show ?thesis using s by simp
qed

end
